theory Spec2Isabelle
  imports Main
begin

section \<open>The CV skill extractor (cv.py)\<close>

text \<open>
  The program is a linear pipeline: resolve an API key from the environment, load the text
  of a CV from a file, send it with a fixed prompt to a remote model, and parse the answer
  as JSON. Each function of \<^verbatim>\<open>cv.py\<close> becomes a HOL function of the same name. What
  the Python reads from the outside world (the process environment, the file system, the
  optional PDF library, the remote API) is an explicit argument of the function that
  reads it; every exception is a value \<open>Inl e\<close> of the result type.

  A Python \<^verbatim>\<open>str\<close> is modelled as a \<^typ>\<open>string\<close> holding its UTF-8 encoding, so that a
  file's bytes and the text decoded from them live in the same type and can be compared
  byte for byte. Two limits of the interpreter are arguments too, as the JSON decoder
  raises when the text goes beyond them: how many nested calls are left before
  \<^verbatim>\<open>RecursionError\<close>, and the longest integer literal that \<^verbatim>\<open>int\<close> converts. Running out of
  memory is not modelled.
\<close>

subsection \<open>Exceptions\<close>

text \<open>
  \<^verbatim>\<open>class CVExtractorError(RuntimeError)\<close> is the program's only domain error; the spec's
  conditions NotFound, UnsupportedFormat, DependencyMissing and MissingCredential are all
  raised as this class and differ in the message only. The other constructors are the
  exceptions that the interpreter and the libraries raise. The program catches two of
  them, \<open>ImportError\<close> around the PDF branch and \<open>JSONDecodeError\<close> around \<^verbatim>\<open>json.loads\<close>;
  the others pass through it. \<open>JSONDecodeError\<close> is a subclass of \<open>ValueError\<close>, so a clause
  that catches the first does not catch a plain \<open>ValueError\<close>. \<open>OSError\<close> carries its
  \<^verbatim>\<open>errno\<close>; \<open>LibraryError\<close> stands for any failure of a collaborator (a transport or API
  error, a malformed PDF) with its description.
\<close>

datatype pyerror =
    CVExtractorError string
  | ImportError
  | IndexError
  | AttributeError
  | FileNotFoundError
  | IsADirectoryError
  | PermissionError
  | OSError nat
  | UnicodeDecodeError
  | JSONDecodeError
  | ValueError
  | RecursionError
  | LibraryError string

subsection \<open>Credential loader\<close>

text \<open>
  \<^verbatim>\<open>os.environ\<close> is a map from variable names to values. \<^verbatim>\<open>load_dotenv()\<close> looks for a
  \<^verbatim>\<open>.env\<close> file; when there is one, each of its bindings is added to the environment
  unless the variable is already set (the default \<^verbatim>\<open>override=False\<close>). The parsed file is
  the argument \<open>dotenv_file\<close>: \<open>None\<close> when no file is found.
\<close>

type_synonym environ = "string \<rightharpoonup> string"

definition load_dotenv :: "environ option \<Rightarrow> environ \<Rightarrow> environ" where
  "load_dotenv dotenv_file env =
     (case dotenv_file of None \<Rightarrow> env | Some bindings \<Rightarrow> bindings ++ env)"

text \<open>
  \<^verbatim>\<open>
  def load_api_key() -> str:
      load_dotenv()
      api_key = os.getenv("ANTHROPIC_API_KEY")
      if not api_key:
          raise CVExtractorError(
              "Missing ANTHROPIC_API_KEY in environment. Set it in your .env file."
          )
      return api_key
  \<close>
  \<^verbatim>\<open>not api_key\<close> holds for \<^verbatim>\<open>None\<close> and for the empty string. The function returns
  its result together with the environment that \<^verbatim>\<open>load_dotenv\<close> has updated.
\<close>

definition missing_key_message :: string where
  "missing_key_message = ''Missing ANTHROPIC_API_KEY in environment. Set it in your .env file.''"

definition load_api_key :: "environ option \<Rightarrow> environ \<Rightarrow> (pyerror + string) \<times> environ" where
  "load_api_key dotenv_file env =
     (let env' = load_dotenv dotenv_file env in
      case env' ''ANTHROPIC_API_KEY'' of
        None \<Rightarrow> (Inl (CVExtractorError missing_key_message), env')
      | Some api_key \<Rightarrow>
          if api_key = [] then (Inl (CVExtractorError missing_key_message), env')
          else (Inr api_key, env'))"

subsection \<open>Paths\<close>

text \<open>
  A \<^verbatim>\<open>pathlib.Path\<close> on a POSIX system is held parsed: the anchor (\<^verbatim>\<open>''\<close> for a
  relative path, \<^verbatim>\<open>'/'\<close> for an absolute one) and the list of the components after it.
  \<open>name\<close>, \<open>suffix\<close> and \<open>path_str\<close> follow \<^verbatim>\<open>PurePath.name\<close>, \<^verbatim>\<open>PurePath.suffix\<close> and
  \<^verbatim>\<open>PurePath.__str__\<close>:
  \<^verbatim>\<open>
  def suffix(self):
      name = self.name
      i = name.rfind('.')
      if 0 < i < len(name) - 1:
          return name[i:]
      else:
          return ''
  \<close>
  so a leading dot does not start a suffix (\<^verbatim>\<open>.txt\<close> has none) and neither does a
  trailing one. This is \<^verbatim>\<open>pathlib\<close> up to Python 3.13; the properties below depend on the
  suffix only through its value.
\<close>

record path =
  anchor :: string
  tail :: "string list"

definition name :: "path \<Rightarrow> string" where
  "name p = (if tail p = [] then '''' else last (tail p))"

text \<open>\<^verbatim>\<open>str.rfind\<close>: the highest index of the character, or \<open>-1\<close>.\<close>

primrec rfind :: "string \<Rightarrow> char \<Rightarrow> int" where
  "rfind [] c = - 1"
| "rfind (x # xs) c =
     (let r = rfind xs c in if 0 \<le> r then r + 1 else if x = c then 0 else - 1)"

definition suffix :: "path \<Rightarrow> string" where
  "suffix p =
     (let nm = name p; i = rfind nm (CHR ''.'') in
      if 0 < i \<and> i < int (length nm) - 1 then drop (nat i) nm else '''')"

text \<open>
  \<^verbatim>\<open>str.lower\<close> on the letters A to Z. Bytes of other characters are left as they are:
  no character outside ASCII has a lower-case form that contains one of the letters of
  \<^verbatim>\<open>.txt\<close> or \<^verbatim>\<open>.pdf\<close>, so the two comparisons of \<open>load_cv_text\<close> are not affected.
\<close>

definition lower_char :: "char \<Rightarrow> char" where
  "lower_char c =
     (let n = (of_char c :: nat) in if 65 \<le> n \<and> n \<le> 90 then char_of (n + 32) else c)"

definition lower :: "string \<Rightarrow> string" where
  "lower s = map lower_char s"

text \<open>\<^verbatim>\<open>sep.join(parts)\<close>.\<close>

fun join :: "string \<Rightarrow> string list \<Rightarrow> string" where
  "join sep [] = []"
| "join sep [x] = x"
| "join sep (x # y # ys) = x @ sep @ join sep (y # ys)"

definition path_str :: "path \<Rightarrow> string" where
  "path_str p =
     (let s = anchor p @ join ''/'' (tail p) in if s = [] then ''.'' else s)"

subsection \<open>File system\<close>

text \<open>
  At a path there may be a regular file or a directory. A regular file is represented by
  what opening it and reading all of it gives: its bytes, or the \<open>OSError\<close> that is raised
  (\<open>PermissionError\<close> for a file that the process may not read).

  The file system maps a path to what \<^verbatim>\<open>os.stat\<close> finds:
  \<^item> \<open>Missing\<close>: nothing is there, and \<^verbatim>\<open>stat\<close> says so (ENOENT, ENOTDIR, EBADF or ELOOP);
  \<^item> \<open>Present node\<close>: \<^verbatim>\<open>stat\<close> succeeds;
  \<^item> \<open>StatFails e node\<close>: \<^verbatim>\<open>stat\<close> raises another \<open>OSError\<close>, such as \<open>PermissionError\<close>
    below a directory that the process may not search, or ENAMETOOLONG (errno 36) for a
    name longer than the file system allows; the second argument says what is there in
    fact, if anything.
  \<open>present\<close> is what is at the path in fact.
\<close>

type_synonym contents = "pyerror + string"

datatype node = RegularFile contents | Directory

datatype lookup = Missing | Present node | StatFails pyerror "node option"

type_synonym filesystem = "path \<Rightarrow> lookup"

definition present :: "lookup \<Rightarrow> node option" where
  "present l = (case l of Missing \<Rightarrow> None | Present n \<Rightarrow> Some n | StatFails e n \<Rightarrow> n)"

text \<open>
  \<^verbatim>\<open>
  def exists(self):
      try:
          self.stat()
      except OSError as e:
          if not _ignore_error(e):
              raise
          return False
      except ValueError:
          return False
      return True
  \<close>
  where \<^verbatim>\<open>_ignore_error\<close> holds of ENOENT, ENOTDIR, EBADF and ELOOP.
\<close>

definition exists :: "filesystem \<Rightarrow> path \<Rightarrow> pyerror + bool" where
  "exists fs p =
     (case fs p of
        Missing \<Rightarrow> Inr False
      | Present n \<Rightarrow> Inr True
      | StatFails e n \<Rightarrow> Inl e)"

text \<open>
  The strict UTF-8 decoder: it accepts the shortest encoding of every code point up to
  U+10FFFF but the surrogates, and nothing else. As a \<^verbatim>\<open>str\<close> is held in UTF-8, decoding
  returns the bytes it has accepted.
\<close>

definition in_range :: "nat \<Rightarrow> nat \<Rightarrow> char \<Rightarrow> bool" where
  "in_range lo hi c = (lo \<le> of_char c \<and> (of_char c :: nat) \<le> hi)"

fun utf8_valid :: "string \<Rightarrow> bool" where
  "utf8_valid [] = True"
| "utf8_valid (b # bs) =
     (let n = (of_char b :: nat) in
      if n < 0x80 then utf8_valid bs
      else if 0xC2 \<le> n \<and> n \<le> 0xDF then
        (case bs of
           c1 # r \<Rightarrow> in_range 0x80 0xBF c1 \<and> utf8_valid r
         | _ \<Rightarrow> False)
      else if 0xE0 \<le> n \<and> n \<le> 0xEF then
        (case bs of
           c1 # c2 # r \<Rightarrow>
             in_range (if n = 0xE0 then 0xA0 else 0x80) (if n = 0xED then 0x9F else 0xBF) c1
             \<and> in_range 0x80 0xBF c2 \<and> utf8_valid r
         | _ \<Rightarrow> False)
      else if 0xF0 \<le> n \<and> n \<le> 0xF4 then
        (case bs of
           c1 # c2 # c3 # r \<Rightarrow>
             in_range (if n = 0xF0 then 0x90 else 0x80) (if n = 0xF4 then 0x8F else 0xBF) c1
             \<and> in_range 0x80 0xBF c2 \<and> in_range 0x80 0xBF c3 \<and> utf8_valid r
         | _ \<Rightarrow> False)
      else False)"

text \<open>
  A file opened in text mode with the default \<^verbatim>\<open>newline=None\<close> is read with universal
  newlines: each \<^verbatim>\<open>\r\n\<close> and each remaining \<^verbatim>\<open>\r\<close> comes out as \<^verbatim>\<open>\n\<close>.
\<close>

fun universal_newlines :: "string \<Rightarrow> string" where
  "universal_newlines [] = []"
| "universal_newlines (c # cs) =
     (if c = CHR 0x0D then
        (case cs of
           [] \<Rightarrow> [CHR 0x0A]
         | d # ds \<Rightarrow>
             if d = CHR 0x0A then CHR 0x0A # universal_newlines ds
             else CHR 0x0A # universal_newlines cs)
      else c # universal_newlines cs)"

text \<open>
  \<^verbatim>\<open>Path.open("rb")\<close> followed by reading the file gives its bytes, or raises: the error of
  \<^verbatim>\<open>stat\<close> when the path cannot be reached, \<open>IsADirectoryError\<close> for a directory, the
  file's own error when it cannot be read. \<^verbatim>\<open>Path.read_text(encoding="utf-8")\<close> opens the
  file in text mode, decodes all of it and returns the text.
\<close>

definition open_rb :: "filesystem \<Rightarrow> path \<Rightarrow> pyerror + string" where
  "open_rb fs p =
     (case fs p of
        Missing \<Rightarrow> Inl FileNotFoundError
      | StatFails e n \<Rightarrow> Inl e
      | Present Directory \<Rightarrow> Inl IsADirectoryError
      | Present (RegularFile c) \<Rightarrow> c)"

definition read_text :: "filesystem \<Rightarrow> path \<Rightarrow> pyerror + string" where
  "read_text fs p =
     (case open_rb fs p of
        Inl e \<Rightarrow> Inl e
      | Inr bytes \<Rightarrow>
          if utf8_valid bytes then Inr (universal_newlines bytes) else Inl UnicodeDecodeError)"

subsection \<open>Text loader\<close>

text \<open>
  PyPDF2 is an optional collaborator: the argument \<open>PyPDF2\<close> is \<open>None\<close> when the import
  fails, and otherwise the library's \<^verbatim>\<open>PdfReader\<close>, which turns the bytes of a file
  into its pages or fails. A page is represented by what its \<^verbatim>\<open>extract_text()\<close> gives:
  the text of the page, or an error.
\<close>

type_synonym page = "pyerror + string"

type_synonym pdf_reader = "string \<Rightarrow> pyerror + page list"

text \<open>
  The loop
  \<^verbatim>\<open>
  text = ""
  for page in reader.pages:
      text += page.extract_text()
  return text
  \<close>
  with the accumulator \<open>text\<close> as an argument.
\<close>

fun extract_pages :: "string \<Rightarrow> page list \<Rightarrow> pyerror + string" where
  "extract_pages text [] = Inr text"
| "extract_pages text (page # pages) =
     (case page of Inl e \<Rightarrow> Inl e | Inr t \<Rightarrow> extract_pages (text @ t) pages)"

text \<open>The body of the \<^verbatim>\<open>try\<close> block of the PDF branch, and its \<^verbatim>\<open>except ImportError\<close>.\<close>

definition try_read_pdf :: "filesystem \<Rightarrow> pdf_reader option \<Rightarrow> path \<Rightarrow> pyerror + string" where
  "try_read_pdf fs PyPDF2 cv_path =
     (case PyPDF2 of
        None \<Rightarrow> Inl ImportError
      | Some PdfReader \<Rightarrow>
          (case open_rb fs cv_path of
             Inl e \<Rightarrow> Inl e
           | Inr f \<Rightarrow>
               (case PdfReader f of
                  Inl e \<Rightarrow> Inl e
                | Inr pages \<Rightarrow> extract_pages '''' pages)))"

definition except_ImportError :: "pyerror + string \<Rightarrow> pyerror + string" where
  "except_ImportError r =
     (case r of
        Inl ImportError \<Rightarrow>
          Inl (CVExtractorError ''PyPDF2 not installed. Install it with: pip install PyPDF2'')
      | _ \<Rightarrow> r)"

text \<open>
  \<^verbatim>\<open>
  def load_cv_text(cv_path: Path) -> str:
      if not cv_path.exists():
          raise CVExtractorError(f"CV file not found: {cv_path}")
      if cv_path.suffix.lower() == ".txt":
          return cv_path.read_text(encoding="utf-8")
      elif cv_path.suffix.lower() == ".pdf":
          try:
              import PyPDF2
              with cv_path.open("rb") as f:
                  reader = PyPDF2.PdfReader(f)
                  text = ""
                  for page in reader.pages:
                      text += page.extract_text()
                  return text
          except ImportError:
              raise CVExtractorError(
                  "PyPDF2 not installed. Install it with: pip install PyPDF2"
              )
      else:
          raise CVExtractorError(
              f"Unsupported file format: {cv_path.suffix}. Use .txt or .pdf"
          )
  \<close>
  An error raised by \<^verbatim>\<open>cv_path.exists()\<close> leaves the function at its first line.
\<close>

definition load_cv_text :: "filesystem \<Rightarrow> pdf_reader option \<Rightarrow> path \<Rightarrow> pyerror + string" where
  "load_cv_text fs PyPDF2 cv_path =
     (case exists fs cv_path of
        Inl e \<Rightarrow> Inl e
      | Inr found \<Rightarrow>
          if \<not> found then
            Inl (CVExtractorError (''CV file not found: '' @ path_str cv_path))
          else if lower (suffix cv_path) = ''.txt'' then read_text fs cv_path
          else if lower (suffix cv_path) = ''.pdf'' then
            except_ImportError (try_read_pdf fs PyPDF2 cv_path)
          else
            Inl (CVExtractorError
                   (''Unsupported file format: '' @ suffix cv_path @ ''. Use .txt or .pdf'')))"

subsection \<open>Python values and \<^verbatim>\<open>json.loads\<close>\<close>

text \<open>
  The values that \<^verbatim>\<open>json.loads\<close> builds. A \<^verbatim>\<open>dict\<close> is the list of its items in insertion
  order, with distinct keys. Binary floating point is not modelled: a \<^verbatim>\<open>float\<close> is kept
  as the text it was read from.
\<close>

datatype pyvalue =
    PyNone
  | PyBool bool
  | PyInt int
  | PyFloat string
  | PyStr string
  | PyList "pyvalue list"
  | PyDict "(string \<times> pyvalue) list"

fun is_mapping :: "pyvalue \<Rightarrow> bool" where
  "is_mapping (PyDict items) = True"
| "is_mapping _ = False"

text \<open>
  \<^verbatim>\<open>d[k] = v\<close>, and \<^verbatim>\<open>dict(pairs)\<close>: a key that comes again keeps its place and takes
  the later value.
\<close>

fun dict_set :: "(string \<times> pyvalue) list \<Rightarrow> string \<Rightarrow> pyvalue \<Rightarrow> (string \<times> pyvalue) list" where
  "dict_set [] k v = [(k, v)]"
| "dict_set ((k', v') # d) k v = (if k' = k then (k, v) # d else (k', v') # dict_set d k v)"

definition dict :: "(string \<times> pyvalue) list \<Rightarrow> (string \<times> pyvalue) list" where
  "dict pairs = foldl (\<lambda>d (k, v). dict_set d k v) [] pairs"

text \<open>
  \<^verbatim>\<open>json.loads\<close> is the decoder of the standard library with its defaults. It is modelled
  in two passes that accept the same texts and build the same values as the library's
  recursive scanner: \<open>tokenize\<close> splits the text into tokens, skipping the white space
  that the decoder allows between any two of them, and \<open>run\<close> reads the tokens with a
  stack of the arrays and objects that are still open. The result is the value, or
  the exception with its class only: a \<open>JSONDecodeError\<close> is the same whatever its message
  and position.
\<close>

definition whitespace :: "char \<Rightarrow> bool" where
  "whitespace c = (c = CHR '' '' \<or> c = CHR 0x09 \<or> c = CHR 0x0A \<or> c = CHR 0x0D)"

definition is_digit :: "char \<Rightarrow> bool" where
  "is_digit c = in_range 0x30 0x39 c"

text \<open>
  String literals (\<^verbatim>\<open>scanstring\<close> in strict mode, called after the opening quote): the
  result is the decoded string and the text after the closing quote. A control character
  is refused; an escape is one of \<^verbatim>\<open>\" \\ \/ \b \f \n \r \t\<close> or \<^verbatim>\<open>\uXXXX\<close> with four hex
  digits; a high surrogate followed by an escaped low surrogate is one character.
\<close>

definition hexval :: "char \<Rightarrow> nat option" where
  "hexval c =
     (if in_range 0x30 0x39 c then Some (of_char c - 0x30)
      else if in_range 0x41 0x46 c then Some (of_char c - 0x41 + 10)
      else if in_range 0x61 0x66 c then Some (of_char c - 0x61 + 10)
      else None)"

fun decode_uXXXX :: "string \<Rightarrow> nat option" where
  "decode_uXXXX [a, b, c, d] =
     (case (hexval a, hexval b, hexval c, hexval d) of
        (Some w, Some x, Some y, Some z) \<Rightarrow> Some (((w * 16 + x) * 16 + y) * 16 + z)
      | _ \<Rightarrow> None)"
| "decode_uXXXX _ = None"

definition utf8_encode :: "nat \<Rightarrow> string" where
  "utf8_encode cp =
     (if cp < 0x80 then [char_of cp]
      else if cp < 0x800 then [char_of (0xC0 + cp div 0x40), char_of (0x80 + cp mod 0x40)]
      else if cp < 0x10000 then
        [char_of (0xE0 + cp div 0x1000), char_of (0x80 + cp div 0x40 mod 0x40),
         char_of (0x80 + cp mod 0x40)]
      else
        [char_of (0xF0 + cp div 0x40000), char_of (0x80 + cp div 0x1000 mod 0x40),
         char_of (0x80 + cp div 0x40 mod 0x40), char_of (0x80 + cp mod 0x40)])"

definition backslash :: "char \<Rightarrow> char option" where
  "backslash esc =
     (if esc = CHR 0x22 then Some (CHR 0x22)
      else if esc = CHR 0x5C then Some (CHR 0x5C)
      else if esc = CHR ''/'' then Some (CHR ''/'')
      else if esc = CHR ''b'' then Some (CHR 0x08)
      else if esc = CHR ''f'' then Some (CHR 0x0C)
      else if esc = CHR ''n'' then Some (CHR 0x0A)
      else if esc = CHR ''r'' then Some (CHR 0x0D)
      else if esc = CHR ''t'' then Some (CHR 0x09)
      else None)"

definition prepend :: "string \<Rightarrow> (string \<times> string) option \<Rightarrow> (string \<times> string) option" where
  "prepend chars r = map_option (\<lambda>(s, rest). (chars @ s, rest)) r"

fun scanstring :: "string \<Rightarrow> (string \<times> string) option" where
  "scanstring [] = None"
| "scanstring (c # cs) =
     (if c = CHR 0x22 then Some ([], cs)
      else if c = CHR 0x5C then
        (case cs of
           [] \<Rightarrow> None
         | esc # r \<Rightarrow>
             if esc = CHR ''u'' then
               (case decode_uXXXX (take 4 r) of
                  None \<Rightarrow> None
                | Some uni \<Rightarrow>
                    if 0xD800 \<le> uni \<and> uni \<le> 0xDBFF \<and> take 2 (drop 4 r) = [CHR 0x5C, CHR ''u''] then
                      (case decode_uXXXX (take 4 (drop 6 r)) of
                         None \<Rightarrow> None
                       | Some uni2 \<Rightarrow>
                           if 0xDC00 \<le> uni2 \<and> uni2 \<le> 0xDFFF then
                             prepend
                               (utf8_encode (0x10000 + ((uni - 0xD800) * 0x400 + (uni2 - 0xDC00))))
                               (scanstring (drop 10 r))
                           else prepend (utf8_encode uni) (scanstring (drop 4 r)))
                    else prepend (utf8_encode uni) (scanstring (drop 4 r)))
             else
               (case backslash esc of
                  None \<Rightarrow> None
                | Some ch \<Rightarrow> prepend [ch] (scanstring r)))
      else if (of_char c :: nat) < 0x20 then None
      else prepend [c] (scanstring cs))"

text \<open>
  Numbers: the three groups of the decoder's pattern
  \<^verbatim>\<open>(-?(?:0|[1-9][0-9]*))(\.[0-9]+)?([eE][-+]?[0-9]+)?\<close>, each as the prefix it matches
  (empty when it does not match). Without a fraction and an exponent the number is an
  \<^verbatim>\<open>int\<close>, otherwise a \<^verbatim>\<open>float\<close>.
\<close>

definition integer_digits :: "string \<Rightarrow> string" where
  "integer_digits s =
     (case s of
        [] \<Rightarrow> []
      | c # cs \<Rightarrow>
          if c = CHR ''0'' then [c]
          else if is_digit c then c # takeWhile is_digit cs
          else [])"

definition integer_part :: "string \<Rightarrow> string" where
  "integer_part s =
     (case s of
        [] \<Rightarrow> []
      | c # cs \<Rightarrow>
          if c = CHR ''-'' then (if integer_digits cs = [] then [] else c # integer_digits cs)
          else integer_digits s)"

definition frac_part :: "string \<Rightarrow> string" where
  "frac_part s =
     (case s of
        [] \<Rightarrow> []
      | c # cs \<Rightarrow>
          if c = CHR ''.'' \<and> takeWhile is_digit cs \<noteq> [] then c # takeWhile is_digit cs else [])"

definition exp_sign :: "string \<Rightarrow> string" where
  "exp_sign s =
     (case s of
        [] \<Rightarrow> []
      | c # cs \<Rightarrow> if c = CHR ''+'' \<or> c = CHR ''-'' then [c] else [])"

definition exp_part :: "string \<Rightarrow> string" where
  "exp_part s =
     (case s of
        [] \<Rightarrow> []
      | c # cs \<Rightarrow>
          if (c = CHR ''e'' \<or> c = CHR ''E'')
             \<and> takeWhile is_digit (drop (length (exp_sign cs)) cs) \<noteq> []
          then c # exp_sign cs @ takeWhile is_digit (drop (length (exp_sign cs)) cs)
          else [])"

text \<open>
  The interpreter's limits that the decoder meets.
  \<^item> \<open>max_depth\<close>: how many arrays and objects the decoder can have open at a time. The
    scanner calls itself for each array and object inside another; the call that would
    go beyond the recursion limit raises \<open>RecursionError\<close>. The number is the recursion
    limit (1000 by default) less the calls that are in progress when the scanner starts.
  \<^item> \<open>int_max_str_digits\<close>: \<^verbatim>\<open>sys.get_int_max_str_digits()\<close>, the longest run of digits that
    \<^verbatim>\<open>int\<close> converts (4300 by default); a longer one raises \<open>ValueError\<close>. Zero means no limit.
\<close>

record interpreter =
  max_depth :: nat
  int_max_str_digits :: nat

definition decimal :: "string \<Rightarrow> int" where
  "decimal ds = foldl (\<lambda>a d. 10 * a + (of_char d - 0x30)) 0 ds"

text \<open>
  \<^verbatim>\<open>int(s)\<close> for the text of an integer literal. The sign is not counted as a digit, and
  the limit is looked at for more than 640 digits only (it cannot be set below that).
\<close>

definition python_int :: "interpreter \<Rightarrow> string \<Rightarrow> pyerror + int" where
  "python_int py s =
     (let negative = (take 1 s = ''-'');
          digits = (if negative then drop 1 s else s)
      in if 640 < length digits \<and> 0 < int_max_str_digits py
            \<and> int_max_str_digits py < length digits
         then Inl ValueError
         else Inr (if negative then - decimal digits else decimal digits))"

text \<open>
  Tokens. A string literal is decoded when it is scanned. An integer literal is kept as
  its text and converted when the reader takes it as a value, which is when the decoder
  calls \<^verbatim>\<open>int\<close>. \<open>Const\<close> is one of \<^verbatim>\<open>null\<close>, \<^verbatim>\<open>true\<close>, \<^verbatim>\<open>false\<close>, a \<^verbatim>\<open>float\<close> or one of the
  three constants that the decoder accepts beyond JSON. \<open>Bad\<close> marks the place where no
  token can be read; nothing follows it.
\<close>

datatype token =
    LBrace | RBrace | LBracket | RBracket | Comma | Colon
  | Str string
  | IntLit string
  | Const pyvalue
  | Bad

definition match_number :: "string \<Rightarrow> (token \<times> string) option" where
  "match_number s =
     (let integer = integer_part s;
          frac = frac_part (drop (length integer) s);
          exp = exp_part (drop (length integer + length frac) s)
      in if integer = [] then None
         else Some (if frac = [] \<and> exp = [] then IntLit integer
                    else Const (PyFloat (integer @ frac @ exp)),
                    drop (length integer + length frac + length exp) s))"

text \<open>
  The values that are neither strings nor containers, in the order in which the scanner
  tries them: \<^verbatim>\<open>null\<close>, \<^verbatim>\<open>true\<close>, \<^verbatim>\<open>false\<close>, a number, and the three constants.
\<close>

definition scan_scalar :: "string \<Rightarrow> (token \<times> string) option" where
  "scan_scalar s =
     (if take 4 s = ''null'' then Some (Const PyNone, drop 4 s)
      else if take 4 s = ''true'' then Some (Const (PyBool True), drop 4 s)
      else if take 5 s = ''false'' then Some (Const (PyBool False), drop 5 s)
      else
        (case match_number s of
           Some r \<Rightarrow> Some r
         | None \<Rightarrow>
             if take 3 s = ''NaN'' then Some (Const (PyFloat ''NaN''), drop 3 s)
             else if take 8 s = ''Infinity'' then Some (Const (PyFloat ''Infinity''), drop 8 s)
             else if take 9 s = ''-Infinity'' then Some (Const (PyFloat ''-Infinity''), drop 9 s)
             else None))"

function tokenize :: "string \<Rightarrow> token list" where
  "tokenize [] = []"
| "tokenize (c # cs) =
     (if whitespace c then tokenize cs
      else if c = CHR ''{'' then LBrace # tokenize cs
      else if c = CHR ''}'' then RBrace # tokenize cs
      else if c = CHR ''['' then LBracket # tokenize cs
      else if c = CHR '']'' then RBracket # tokenize cs
      else if c = CHR '','' then Comma # tokenize cs
      else if c = CHR '':'' then Colon # tokenize cs
      else if c = CHR 0x22 then
        (case scanstring cs of
           None \<Rightarrow> [Bad]
         | Some (s, rest) \<Rightarrow> Str s # tokenize rest)
      else
        (case scan_scalar (c # cs) of
           None \<Rightarrow> [Bad]
         | Some (t, rest) \<Rightarrow> t # tokenize rest))"
  by pat_completeness auto

text \<open>
  The reader of tokens. A frame is a container that is still open: an array with the
  values read so far, an object with its pairs, or an object with its pairs and the key
  whose value is being read. The state says what may come next:
  \<^item> \<open>Value\<close>: a value (at the start, after a comma in an array, after a colon);
  \<^item> \<open>FirstValue\<close>: a value or \<^verbatim>\<open>]\<close> (after \<^verbatim>\<open>[\<close>);
  \<^item> \<open>FirstKey\<close>: a key or \<^verbatim>\<open>}\<close> (after \<^verbatim>\<open>{\<close>);
  \<^item> \<open>NextKey\<close>: a key (after a comma in an object);
  \<^item> \<open>AfterKey\<close>: a colon;
  \<^item> \<open>AfterValue\<close>: a comma or the bracket that closes the container;
  \<^item> \<open>Finished\<close>: nothing, the whole value has been read.
  A key is a string literal. A comma is never followed by a closing bracket. The tokens
  are read from left to right and the first error is the result: \<open>RecursionError\<close> when
  a container is opened with \<open>max_depth\<close> of them open already, \<open>ValueError\<close> when an
  integer literal that is too long is taken as a value, \<open>JSONDecodeError\<close> for a token
  that may not come next.
\<close>

datatype frame =
    InArray "pyvalue list"
  | InObject "(string \<times> pyvalue) list"
  | InMember "(string \<times> pyvalue) list" string

datatype pstate =
    Value "frame list"
  | FirstValue "frame list"
  | FirstKey "frame list"
  | NextKey "frame list"
  | AfterKey string "frame list"
  | AfterValue "frame list"
  | Finished pyvalue

fun push_value :: "pyvalue \<Rightarrow> frame list \<Rightarrow> pyerror + pstate" where
  "push_value v [] = Inr (Finished v)"
| "push_value v (InArray values # stack) = Inr (AfterValue (InArray (values @ [v]) # stack))"
| "push_value v (InMember pairs key # stack) =
     Inr (AfterValue (InObject (pairs @ [(key, v)]) # stack))"
| "push_value v (InObject pairs # stack) = Inl JSONDecodeError"

fun begin_value :: "interpreter \<Rightarrow> frame list \<Rightarrow> token \<Rightarrow> pyerror + pstate" where
  "begin_value py stack (Str s) = push_value (PyStr s) stack"
| "begin_value py stack (Const v) = push_value v stack"
| "begin_value py stack (IntLit lexeme) =
     (case python_int py lexeme of
        Inl e \<Rightarrow> Inl e
      | Inr n \<Rightarrow> push_value (PyInt n) stack)"
| "begin_value py stack LBracket =
     (if length stack < max_depth py then Inr (FirstValue (InArray [] # stack))
      else Inl RecursionError)"
| "begin_value py stack LBrace =
     (if length stack < max_depth py then Inr (FirstKey (InObject [] # stack))
      else Inl RecursionError)"
| "begin_value py stack t = Inl JSONDecodeError"

fun close_array :: "frame list \<Rightarrow> pyerror + pstate" where
  "close_array (InArray values # stack) = push_value (PyList values) stack"
| "close_array stack = Inl JSONDecodeError"

fun close_object :: "frame list \<Rightarrow> pyerror + pstate" where
  "close_object (InObject pairs # stack) = push_value (PyDict (dict pairs)) stack"
| "close_object stack = Inl JSONDecodeError"

fun next_item :: "frame list \<Rightarrow> pyerror + pstate" where
  "next_item (InArray values # stack) = Inr (Value (InArray values # stack))"
| "next_item (InObject pairs # stack) = Inr (NextKey (InObject pairs # stack))"
| "next_item stack = Inl JSONDecodeError"

fun begin_member :: "string \<Rightarrow> frame list \<Rightarrow> pyerror + pstate" where
  "begin_member key (InObject pairs # stack) = Inr (Value (InMember pairs key # stack))"
| "begin_member key stack = Inl JSONDecodeError"

fun step :: "interpreter \<Rightarrow> pstate \<Rightarrow> token \<Rightarrow> pyerror + pstate" where
  "step py (Value stack) t = begin_value py stack t"
| "step py (FirstValue stack) t =
     (case t of RBracket \<Rightarrow> close_array stack | _ \<Rightarrow> begin_value py stack t)"
| "step py (FirstKey stack) t =
     (case t of
        RBrace \<Rightarrow> close_object stack
      | Str key \<Rightarrow> Inr (AfterKey key stack)
      | _ \<Rightarrow> Inl JSONDecodeError)"
| "step py (NextKey stack) t =
     (case t of Str key \<Rightarrow> Inr (AfterKey key stack) | _ \<Rightarrow> Inl JSONDecodeError)"
| "step py (AfterKey key stack) t =
     (case t of Colon \<Rightarrow> begin_member key stack | _ \<Rightarrow> Inl JSONDecodeError)"
| "step py (AfterValue stack) t =
     (case t of
        Comma \<Rightarrow> next_item stack
      | RBracket \<Rightarrow> close_array stack
      | RBrace \<Rightarrow> close_object stack
      | _ \<Rightarrow> Inl JSONDecodeError)"
| "step py (Finished v) t = Inl JSONDecodeError"

fun run :: "interpreter \<Rightarrow> pstate \<Rightarrow> token list \<Rightarrow> pyerror + pstate" where
  "run py st [] = Inr st"
| "run py st (t # ts) = (case step py st t of Inl e \<Rightarrow> Inl e | Inr st' \<Rightarrow> run py st' ts)"

text \<open>
  \<^verbatim>\<open>json.loads(s)\<close>: the value of the text, or the exception raised. A text that ends
  before its value is complete is a \<open>JSONDecodeError\<close>.
\<close>

definition json_loads :: "interpreter \<Rightarrow> string \<Rightarrow> pyerror + pyvalue" where
  "json_loads py s =
     (case run py (Value []) (tokenize s) of
        Inl e \<Rightarrow> Inl e
      | Inr (Finished v) \<Rightarrow> Inr v
      | Inr _ \<Rightarrow> Inl JSONDecodeError)"

subsection \<open>Extraction client and skill extractor\<close>

text \<open>
  The remote API is the argument \<open>Anthropic\<close>: given the API key of the client and the
  request of \<^verbatim>\<open>client.messages.create\<close> it gives the message of the model, or the error
  that the call raises. The content of a message is a list of blocks; only a text block
  has the attribute \<^verbatim>\<open>text\<close>.
\<close>

datatype content_block = TextBlock string | OtherBlock

record message =
  content :: "content_block list"

record request =
  model :: string
  max_tokens :: nat
  messages :: "(string \<times> string) list"

type_synonym anthropic = "string \<Rightarrow> request \<Rightarrow> pyerror + message"

text \<open>
  \<^verbatim>\<open>
  def extract_cv_with_llm(cv_text: str, *, api_key: str, prompt: str) -> dict[str, Any]:
      client = anthropic.Anthropic(api_key=api_key)
      message = client.messages.create(
          model="claude-3-haiku-20240307",
          max_tokens=2048,
          messages=[
              {
                  "role": "user",
                  "content": f"{prompt}\n\n---CV CONTENT---\n\n{cv_text}",
              },
          ],
      )
      response_text = message.content[0].text
      try:
          return json.loads(response_text)
      except json.JSONDecodeError:
          return {"raw_response": response_text}
  \<close>
  \<open>create_request\<close> is the request that is sent, and \<open>first_text\<close> is
  \<^verbatim>\<open>message.content[0].text\<close>. Of the exceptions of \<^verbatim>\<open>json.loads\<close> the \<^verbatim>\<open>except\<close> clause
  catches \<open>JSONDecodeError\<close> only.
\<close>

definition create_request :: "string \<Rightarrow> string \<Rightarrow> request" where
  "create_request prompt cv_text =
     \<lparr>model = ''claude-3-haiku-20240307'',
      max_tokens = 2048,
      messages =
        [(''user'', prompt @ ''\<newline>\<newline>---CV CONTENT---\<newline>\<newline>'' @ cv_text)]\<rparr>"

definition first_text :: "message \<Rightarrow> pyerror + string" where
  "first_text message =
     (case content message of
        [] \<Rightarrow> Inl IndexError
      | block # blocks \<Rightarrow>
          (case block of
             TextBlock t \<Rightarrow> Inr t
           | OtherBlock \<Rightarrow> Inl AttributeError))"

definition extract_cv_with_llm ::
  "interpreter \<Rightarrow> anthropic \<Rightarrow> string \<Rightarrow> string \<Rightarrow> string \<Rightarrow> pyerror + pyvalue" where
  "extract_cv_with_llm py Anthropic cv_text api_key prompt =
     (case Anthropic api_key (create_request prompt cv_text) of
        Inl e \<Rightarrow> Inl e
      | Inr message \<Rightarrow>
          (case first_text message of
             Inl e \<Rightarrow> Inl e
           | Inr response_text \<Rightarrow>
               (case json_loads py response_text of
                  Inr parsed \<Rightarrow> Inr parsed
                | Inl e \<Rightarrow>
                    if e = JSONDecodeError
                    then Inr (PyDict [(''raw_response'', PyStr response_text)])
                    else Inl e)))"

text \<open>
  \<^verbatim>\<open>extract_skills(cv_text, *, api_key)\<close> calls \<open>extract_cv_with_llm\<close> with its fixed prompt.
\<close>

definition skills_prompt :: string where
  \<open>skills_prompt =
     ''Extract all skills from this CV. Categorize them as follows:\<newline>'' @
     ''- Technical Skills: programming languages, tools, frameworks, technologies\<newline>'' @
     ''- Professional Skills: soft skills, methodologies, certifications\<newline>'' @
     ''- Domain Skills: industry-specific expertise\<newline>'' @
     ''\<newline>'' @
     ''Return ONLY valid JSON with this structure:\<newline>'' @
     ''{\<newline>'' @
     ''  "technical_skills": ["skill1", "skill2", ...],\<newline>'' @
     ''  "professional_skills": ["skill1", "skill2", ...],\<newline>'' @
     ''  "domain_skills": ["skill1", "skill2", ...]\<newline>'' @
     ''}''\<close>

definition extract_skills ::
  "interpreter \<Rightarrow> anthropic \<Rightarrow> string \<Rightarrow> string \<Rightarrow> pyerror + pyvalue" where
  "extract_skills py Anthropic cv_text api_key =
     extract_cv_with_llm py Anthropic cv_text api_key skills_prompt"

text \<open>
  A mocked client, as in the spec's tests: it answers every request with one text block.
\<close>

definition mocked_client :: "string \<Rightarrow> anthropic" where
  "mocked_client response = (\<lambda>api_key request. Inr \<lparr>content = [TextBlock response]\<rparr>)"

subsection \<open>Inputs used below\<close>

text \<open>
  CPython 3.11 with its defaults (a recursion limit of 1000 and 4300 digits), at the
  call of \<^verbatim>\<open>json.loads\<close> that \<^verbatim>\<open>main\<close> makes through \<open>extract_skills\<close> and
  \<open>extract_cv_with_llm\<close>: the decoder can open 992 containers inside one another.
\<close>

definition cpython_defaults :: interpreter where
  "cpython_defaults = \<lparr>max_depth = 992, int_max_str_digits = 4300\<rparr>"

text \<open>A text file with a Windows line ending.\<close>

definition crlf_path :: path where
  "crlf_path = \<lparr>anchor = '''', tail = [''cv.txt'']\<rparr>"

definition crlf_bytes :: string where
  "crlf_bytes = [CHR ''a'', CHR 0x0D, CHR 0x0A, CHR ''b'']"

definition crlf_fs :: filesystem where
  "crlf_fs = (\<lambda>p. Missing)(crlf_path := Present (RegularFile (Inr crlf_bytes)))"

text \<open>
  A file name of 304 characters where no file is: longer than the 255 bytes that Linux
  file systems allow, so that \<^verbatim>\<open>stat\<close> raises \<open>OSError\<close> with errno 36 (ENAMETOOLONG).
\<close>

definition long_path :: path where
  "long_path = \<lparr>anchor = '''', tail = [replicate 300 (CHR ''x'') @ ''.txt'']\<rparr>"

definition long_fs :: filesystem where
  "long_fs = (\<lambda>p. Missing)(long_path := StatFails (OSError 36) None)"

text \<open>
  A Word document that exists below a directory that the process may not search:
  \<^verbatim>\<open>stat\<close> raises \<open>PermissionError\<close>.
\<close>

definition locked_path :: path where
  "locked_path = \<lparr>anchor = ''/'', tail = [''root'', ''cv.docx'']\<rparr>"

definition locked_fs :: filesystem where
  "locked_fs =
     (\<lambda>p. Missing)(locked_path := StatFails PermissionError (Some (RegularFile (Inr ''PK''))))"

section \<open>Properties\<close>

subsection \<open>Credential loader\<close>

text \<open>
  C7. Whenever, once the optional \<^verbatim>\<open>.env\<close> file has been loaded, the variable
  \<^verbatim>\<open>ANTHROPIC_API_KEY\<close> is unset or set to the empty string, \<open>load_api_key\<close> raises
  \<open>CVExtractorError\<close> with the MissingCredential message. That message contains the name
  of the variable and says where to set it (the \<^verbatim>\<open>.env\<close> file).
\<close>

theorem load_api_key_missing:
  assumes "load_dotenv dotenv_file env ''ANTHROPIC_API_KEY'' = None
           \<or> load_dotenv dotenv_file env ''ANTHROPIC_API_KEY'' = Some ''''"
  shows "fst (load_api_key dotenv_file env) =
           Inl (CVExtractorError
                  (''Missing '' @ ''ANTHROPIC_API_KEY'' @ '' in environment. Set it in your .env file.''))"
  using assms by (auto simp: load_api_key_def missing_key_message_def Let_def)

theorem load_api_key_missing_witness:
  "load_dotenv None (Map.empty(''ANTHROPIC_API_KEY'' \<mapsto> '''')) ''ANTHROPIC_API_KEY'' = Some ''''
   \<and> fst (load_api_key None (Map.empty(''ANTHROPIC_API_KEY'' \<mapsto> ''''))) =
       Inl (CVExtractorError ''Missing ANTHROPIC_API_KEY in environment. Set it in your .env file.'')
   \<and> load_dotenv (Some (Map.empty(''OTHER'' \<mapsto> ''1''))) Map.empty ''ANTHROPIC_API_KEY'' = None
   \<and> fst (load_api_key (Some (Map.empty(''OTHER'' \<mapsto> ''1''))) Map.empty) =
       Inl (CVExtractorError ''Missing ANTHROPIC_API_KEY in environment. Set it in your .env file.'')"
proof -
  have empty: "load_dotenv None (Map.empty(''ANTHROPIC_API_KEY'' \<mapsto> '''')) ''ANTHROPIC_API_KEY''
                 = Some ''''"
    by (simp add: load_dotenv_def)
  have unset: "load_dotenv (Some (Map.empty(''OTHER'' \<mapsto> ''1''))) Map.empty ''ANTHROPIC_API_KEY''
                 = None"
    by (simp add: load_dotenv_def)
  from load_api_key_missing [of None "Map.empty(''ANTHROPIC_API_KEY'' \<mapsto> '''')"]
       load_api_key_missing [of "Some (Map.empty(''OTHER'' \<mapsto> ''1''))" Map.empty]
       empty unset
  show ?thesis by simp
qed

text \<open>
  C10. Whenever the variable is set to a non-empty string after loading, \<open>load_api_key\<close>
  returns that string unchanged: nothing is trimmed or validated. This is so in
  particular when the process environment itself sets the variable to a non-empty string,
  whatever the \<^verbatim>\<open>.env\<close> file says. A value made of one space is therefore accepted and
  returned as it is.
\<close>

theorem load_api_key_verbatim:
  "(load_dotenv dotenv_file env ''ANTHROPIC_API_KEY'' = Some k \<and> k \<noteq> ''''
      \<longrightarrow> fst (load_api_key dotenv_file env) = Inr k)
   \<and> (env ''ANTHROPIC_API_KEY'' = Some k \<and> k \<noteq> ''''
      \<longrightarrow> fst (load_api_key dotenv_file env) = Inr k)
   \<and> fst (load_api_key None (Map.empty(''ANTHROPIC_API_KEY'' \<mapsto> '' ''))) = Inr '' ''"
  by (auto simp: load_api_key_def load_dotenv_def Let_def split: option.splits)

theorem load_api_key_verbatim_witness:
  "load_dotenv (Some (Map.empty(''ANTHROPIC_API_KEY'' \<mapsto> ''sk-ant-1''))) Map.empty
       ''ANTHROPIC_API_KEY'' = Some ''sk-ant-1''
   \<and> ''sk-ant-1'' \<noteq> ''''
   \<and> fst (load_api_key (Some (Map.empty(''ANTHROPIC_API_KEY'' \<mapsto> ''sk-ant-1''))) Map.empty)
       = Inr ''sk-ant-1''
   \<and> (Map.empty(''ANTHROPIC_API_KEY'' \<mapsto> ''sk-ant-2'')) ''ANTHROPIC_API_KEY'' = Some ''sk-ant-2''
   \<and> fst (load_api_key (Some (Map.empty(''ANTHROPIC_API_KEY'' \<mapsto> ''sk-ant-1'')))
             (Map.empty(''ANTHROPIC_API_KEY'' \<mapsto> ''sk-ant-2'')))
       = Inr ''sk-ant-2''"
proof -
  have h: "load_dotenv (Some (Map.empty(''ANTHROPIC_API_KEY'' \<mapsto> ''sk-ant-1''))) Map.empty
             ''ANTHROPIC_API_KEY'' = Some ''sk-ant-1''"
    by (simp add: load_dotenv_def)
  from load_api_key_verbatim
         [of "Some (Map.empty(''ANTHROPIC_API_KEY'' \<mapsto> ''sk-ant-1''))" Map.empty "''sk-ant-1''"]
       load_api_key_verbatim
         [of "Some (Map.empty(''ANTHROPIC_API_KEY'' \<mapsto> ''sk-ant-1''))"
             "Map.empty(''ANTHROPIC_API_KEY'' \<mapsto> ''sk-ant-2'')" "''sk-ant-2''"]
       h
  show ?thesis by simp
qed

subsection \<open>Text loader\<close>

lemma universal_newlines_no_CR: "CHR 0x0D \<notin> set (universal_newlines s)"
  by (induction s rule: universal_newlines.induct) (auto split: list.splits)

lemma universal_newlines_id: "CHR 0x0D \<notin> set s \<Longrightarrow> universal_newlines s = s"
  by (induction s rule: universal_newlines.induct) (auto split: list.splits)

lemma universal_newlines_fixed: "universal_newlines s = s \<longleftrightarrow> CHR 0x0D \<notin> set s"
  using universal_newlines_no_CR [of s] universal_newlines_id [of s] by auto

lemma extract_pages_all_text: "extract_pages acc (map Inr ts) = Inr (acc @ concat ts)"
  by (induction ts arbitrary: acc) simp_all

text \<open>
  C5, as the code has it. When \<^verbatim>\<open>cv_path.exists()\<close> returns false, \<open>load_cv_text\<close> raises
  \<open>CVExtractorError\<close> with the NotFound message, which ends with the path. Nothing is
  assumed about the suffix: the test comes before the choice of format. When
  \<^verbatim>\<open>cv_path.exists()\<close> raises, \<open>load_cv_text\<close> raises the same error.
\<close>

theorem load_cv_text_not_found:
  "(exists fs cv_path = Inr False \<longrightarrow>
      load_cv_text fs PyPDF2 cv_path =
        Inl (CVExtractorError (''CV file not found: '' @ path_str cv_path)))
   \<and> (exists fs cv_path = Inl e \<longrightarrow> load_cv_text fs PyPDF2 cv_path = Inl e)"
  by (simp add: load_cv_text_def)

theorem load_cv_text_not_found_witness:
  "exists (\<lambda>p. Missing) \<lparr>anchor = ''/'', tail = [''home'', ''cv.docx'']\<rparr> = Inr False
   \<and> load_cv_text (\<lambda>p. Missing) None \<lparr>anchor = ''/'', tail = [''home'', ''cv.docx'']\<rparr> =
       Inl (CVExtractorError ''CV file not found: /home/cv.docx'')
   \<and> exists (\<lambda>p. StatFails PermissionError None) \<lparr>anchor = ''/'', tail = [''root'', ''cv.txt'']\<rparr>
       = Inl PermissionError
   \<and> load_cv_text (\<lambda>p. StatFails PermissionError None) None
        \<lparr>anchor = ''/'', tail = [''root'', ''cv.txt'']\<rparr> = Inl PermissionError"
proof -
  let ?p = "\<lparr>anchor = ''/'', tail = [''home'', ''cv.docx'']\<rparr>"
  let ?q = "\<lparr>anchor = ''/'', tail = [''root'', ''cv.txt'']\<rparr>"
  have absent: "exists (\<lambda>p. Missing) ?p = Inr False"
    by (simp add: exists_def)
  have denied: "exists (\<lambda>p. StatFails PermissionError None) ?q = Inl PermissionError"
    by (simp add: exists_def)
  from load_cv_text_not_found [of "\<lambda>p. Missing" ?p None]
       load_cv_text_not_found [of "\<lambda>p. StatFails PermissionError None" ?q None PermissionError]
       absent denied
  show ?thesis by (simp add: path_str_def)
qed

text \<open>
  C5, as the spec has it, fails at a path that does not exist and whose name is too long
  for the file system: nothing is at \<open>long_path\<close>, and \<open>load_cv_text\<close> raises the \<open>OSError\<close>
  of \<^verbatim>\<open>stat\<close> (errno 36), not the NotFound error.
\<close>

theorem load_cv_text_name_too_long:
  "present (long_fs long_path) = None
   \<and> load_cv_text long_fs None long_path = Inl (OSError 36)
   \<and> load_cv_text long_fs None long_path
       \<noteq> Inl (CVExtractorError (''CV file not found: '' @ path_str long_path))"
  by (simp add: load_cv_text_def exists_def present_def long_fs_def)

text \<open>
  C2, as the code has it. For a regular file that \<^verbatim>\<open>stat\<close> finds, that can be opened and
  read, whose suffix is \<^verbatim>\<open>.txt\<close> in any case and whose bytes are valid UTF-8,
  \<open>load_cv_text\<close> returns the content read with universal newlines. The result is the
  content byte for byte exactly when the file holds no carriage return.
\<close>

theorem load_cv_text_txt:
  assumes "fs cv_path = Present (RegularFile (Inr bytes))"
    and "lower (suffix cv_path) = ''.txt''"
    and "utf8_valid bytes"
  shows "load_cv_text fs PyPDF2 cv_path = Inr (universal_newlines bytes)
         \<and> (load_cv_text fs PyPDF2 cv_path = Inr bytes \<longleftrightarrow> CHR 0x0D \<notin> set bytes)"
  using assms
  by (simp add: load_cv_text_def exists_def read_text_def open_rb_def universal_newlines_fixed)

theorem load_cv_text_txt_witness:
  "load_cv_text ((\<lambda>p. Missing)(\<lparr>anchor = '''', tail = [''sample.txt'']\<rparr> :=
        Present (RegularFile (Inr ''Proficient in Go, Rust, and team leadership.''))))
      None \<lparr>anchor = '''', tail = [''sample.txt'']\<rparr>
   = Inr ''Proficient in Go, Rust, and team leadership.''"
proof -
  let ?p = "\<lparr>anchor = '''', tail = [''sample.txt'']\<rparr>"
  let ?b = "''Proficient in Go, Rust, and team leadership.''"
  let ?fs = "(\<lambda>p. Missing)(?p := Present (RegularFile (Inr ?b)))"
  have 1: "?fs ?p = Present (RegularFile (Inr ?b))" by simp
  have 2: "lower (suffix ?p) = ''.txt''"
    by (simp add: suffix_def name_def lower_def lower_char_def Let_def)
  have 3: "utf8_valid ?b" by simp
  have 4: "CHR 0x0D \<notin> set ?b" by simp
  from load_cv_text_txt [of ?fs ?p ?b None, OF 1 2 3] 4
  show ?thesis by simp
qed

text \<open>
  C2, as the spec has it, fails on a file with a Windows line ending: the file
  \<^verbatim>\<open>cv.txt\<close> exists and can be read, its suffix is \<^verbatim>\<open>.txt\<close>, its four bytes \<^verbatim>\<open>a\r\nb\<close> are
  valid UTF-8, and \<open>load_cv_text\<close> returns the three characters \<^verbatim>\<open>a\nb\<close>.
\<close>

theorem load_cv_text_crlf:
  "exists crlf_fs crlf_path = Inr True \<and> suffix crlf_path = ''.txt''
   \<and> crlf_fs crlf_path = Present (RegularFile (Inr crlf_bytes)) \<and> utf8_valid crlf_bytes
   \<and> load_cv_text crlf_fs None crlf_path = Inr [CHR ''a'', CHR 0x0A, CHR ''b'']
   \<and> load_cv_text crlf_fs None crlf_path \<noteq> Inr crlf_bytes"
  by (simp add: load_cv_text_def exists_def read_text_def open_rb_def crlf_fs_def crlf_path_def
      crlf_bytes_def suffix_def name_def lower_def lower_char_def in_range_def Let_def)

text \<open>
  C6, as the code has it. For a path on which \<^verbatim>\<open>cv_path.exists()\<close> returns true: when
  its suffix in lower case is neither \<^verbatim>\<open>.txt\<close> nor \<^verbatim>\<open>.pdf\<close>, \<open>load_cv_text\<close> raises
  \<open>CVExtractorError\<close> with the UnsupportedFormat message, which quotes the suffix as
  written; a path with no suffix is such a path; the suffixes \<^verbatim>\<open>.TXT\<close> and \<^verbatim>\<open>.Pdf\<close> go to
  the text branch and to the PDF branch.
\<close>

theorem load_cv_text_unsupported:
  assumes "exists fs cv_path = Inr True"
  shows "(lower (suffix cv_path) \<noteq> ''.txt'' \<and> lower (suffix cv_path) \<noteq> ''.pdf'' \<longrightarrow>
            load_cv_text fs PyPDF2 cv_path =
              Inl (CVExtractorError
                     (''Unsupported file format: '' @ suffix cv_path @ ''. Use .txt or .pdf'')))
         \<and> (suffix cv_path = '''' \<longrightarrow>
              load_cv_text fs PyPDF2 cv_path =
                Inl (CVExtractorError ''Unsupported file format: . Use .txt or .pdf''))
         \<and> (suffix cv_path = ''.TXT'' \<longrightarrow> load_cv_text fs PyPDF2 cv_path = read_text fs cv_path)
         \<and> (suffix cv_path = ''.Pdf'' \<longrightarrow>
              load_cv_text fs PyPDF2 cv_path = except_ImportError (try_read_pdf fs PyPDF2 cv_path))"
  using assms by (simp add: load_cv_text_def lower_def lower_char_def char_of_eq_iff)

theorem load_cv_text_unsupported_witness:
  "exists ((\<lambda>p. Missing)(\<lparr>anchor = '''', tail = [''cv.docx'']\<rparr> := Present (RegularFile (Inr ''PK''))))
      \<lparr>anchor = '''', tail = [''cv.docx'']\<rparr> = Inr True
   \<and> lower (suffix \<lparr>anchor = '''', tail = [''cv.docx'']\<rparr>) = ''.docx''
   \<and> load_cv_text
        ((\<lambda>p. Missing)(\<lparr>anchor = '''', tail = [''cv.docx'']\<rparr> := Present (RegularFile (Inr ''PK''))))
        None \<lparr>anchor = '''', tail = [''cv.docx'']\<rparr>
      = Inl (CVExtractorError ''Unsupported file format: .docx. Use .txt or .pdf'')
   \<and> suffix \<lparr>anchor = ''/'', tail = [''home'', ''resume'']\<rparr> = ''''
   \<and> load_cv_text
        ((\<lambda>p. Missing)(\<lparr>anchor = ''/'', tail = [''home'', ''resume'']\<rparr> :=
            Present (RegularFile (Inr ''cv''))))
        None \<lparr>anchor = ''/'', tail = [''home'', ''resume'']\<rparr>
      = Inl (CVExtractorError ''Unsupported file format: . Use .txt or .pdf'')
   \<and> suffix \<lparr>anchor = '''', tail = [''cv.TXT'']\<rparr> = ''.TXT''
   \<and> load_cv_text
        ((\<lambda>p. Missing)(\<lparr>anchor = '''', tail = [''cv.TXT'']\<rparr> :=
            Present (RegularFile (Inr ''Go, Rust''))))
        None \<lparr>anchor = '''', tail = [''cv.TXT'']\<rparr>
      = Inr ''Go, Rust''
   \<and> suffix \<lparr>anchor = '''', tail = [''cv.Pdf'']\<rparr> = ''.Pdf''
   \<and> load_cv_text
        ((\<lambda>p. Missing)(\<lparr>anchor = '''', tail = [''cv.Pdf'']\<rparr> := Present (RegularFile (Inr ''%PDF''))))
        None \<lparr>anchor = '''', tail = [''cv.Pdf'']\<rparr>
      = Inl (CVExtractorError ''PyPDF2 not installed. Install it with: pip install PyPDF2'')"
proof -
  let ?docx = "\<lparr>anchor = '''', tail = [''cv.docx'']\<rparr>"
  let ?bare = "\<lparr>anchor = ''/'', tail = [''home'', ''resume'']\<rparr>"
  let ?upper = "\<lparr>anchor = '''', tail = [''cv.TXT'']\<rparr>"
  let ?mixed = "\<lparr>anchor = '''', tail = [''cv.Pdf'']\<rparr>"
  let ?fs1 = "(\<lambda>p. Missing)(?docx := Present (RegularFile (Inr ''PK'')))"
  let ?fs2 = "(\<lambda>p. Missing)(?bare := Present (RegularFile (Inr ''cv'')))"
  let ?fs3 = "(\<lambda>p. Missing)(?upper := Present (RegularFile (Inr ''Go, Rust'')))"
  let ?fs4 = "(\<lambda>p. Missing)(?mixed := Present (RegularFile (Inr ''%PDF'')))"
  have ex: "exists ?fs1 ?docx = Inr True" "exists ?fs2 ?bare = Inr True"
    "exists ?fs3 ?upper = Inr True" "exists ?fs4 ?mixed = Inr True"
    by (simp_all add: exists_def)
  have sfx: "suffix ?docx = ''.docx''" "suffix ?bare = ''''" "suffix ?upper = ''.TXT''"
    "suffix ?mixed = ''.Pdf''"
    by (simp_all add: suffix_def name_def Let_def)
  have low: "lower ''.docx'' = ''.docx''" by (simp add: lower_def lower_char_def)
  have read: "read_text ?fs3 ?upper = Inr ''Go, Rust''"
    by (simp add: read_text_def open_rb_def)
  have noimport: "except_ImportError (try_read_pdf ?fs4 None ?mixed)
               = Inl (CVExtractorError ''PyPDF2 not installed. Install it with: pip install PyPDF2'')"
    by (simp add: try_read_pdf_def except_ImportError_def)
  from load_cv_text_unsupported [OF ex(1), of None] load_cv_text_unsupported [OF ex(2), of None]
       load_cv_text_unsupported [OF ex(3), of None] load_cv_text_unsupported [OF ex(4), of None]
       ex sfx low read noimport
  show ?thesis by simp
qed

text \<open>
  C6, as the spec has it, fails at a file that exists where \<^verbatim>\<open>stat\<close> may not look: the
  Word document \<open>locked_path\<close> is there, its suffix is neither \<^verbatim>\<open>.txt\<close> nor \<^verbatim>\<open>.pdf\<close>, and
  \<open>load_cv_text\<close> raises the \<open>PermissionError\<close> of \<^verbatim>\<open>cv_path.exists()\<close>, not the
  UnsupportedFormat error.
\<close>

theorem load_cv_text_locked:
  "present (locked_fs locked_path) = Some (RegularFile (Inr ''PK''))
   \<and> lower (suffix locked_path) = ''.docx''
   \<and> load_cv_text locked_fs None locked_path = Inl PermissionError
   \<and> load_cv_text locked_fs None locked_path
       \<noteq> Inl (CVExtractorError
                (''Unsupported file format: '' @ suffix locked_path @ ''. Use .txt or .pdf''))"
  by (simp add: load_cv_text_def exists_def present_def locked_fs_def locked_path_def
      suffix_def name_def lower_def lower_char_def Let_def)

text \<open>
  C8. For a regular file with the suffix \<^verbatim>\<open>.pdf\<close> in any case that can be opened and read,
  when PyPDF2 is installed, reads the file and every page yields a text, \<open>load_cv_text\<close>
  returns the texts of the pages joined in order, with nothing between them.
\<close>

theorem load_cv_text_pdf:
  assumes "fs cv_path = Present (RegularFile (Inr bytes))"
    and "lower (suffix cv_path) = ''.pdf''"
    and "PyPDF2 = Some PdfReader"
    and "PdfReader bytes = Inr (map Inr ts)"
  shows "load_cv_text fs PyPDF2 cv_path = Inr (concat ts)"
  using assms
  by (simp add: load_cv_text_def exists_def try_read_pdf_def open_rb_def
      extract_pages_all_text except_ImportError_def)

theorem load_cv_text_pdf_witness:
  "load_cv_text
      ((\<lambda>p. Missing)(\<lparr>anchor = '''', tail = [''bolu.pdf'']\<rparr> :=
          Present (RegularFile (Inr ''%PDF-1.4''))))
      (Some (\<lambda>f. Inr [Inr ''Jude '', Inr '''', Inr ''Python'']))
      \<lparr>anchor = '''', tail = [''bolu.pdf'']\<rparr>
   = Inr ''Jude Python''"
proof -
  let ?p = "\<lparr>anchor = '''', tail = [''bolu.pdf'']\<rparr>"
  let ?fs = "(\<lambda>p. Missing)(?p := Present (RegularFile (Inr ''%PDF-1.4'')))"
  let ?r = "\<lambda>f :: string. Inr [Inr ''Jude '', Inr '''', Inr ''Python''] :: pyerror + page list"
  have 1: "?fs ?p = Present (RegularFile (Inr ''%PDF-1.4''))"
    by simp
  have 2: "lower (suffix ?p) = ''.pdf''"
    by (simp add: suffix_def name_def lower_def lower_char_def Let_def)
  have 3: "?r ''%PDF-1.4'' = Inr (map Inr [''Jude '', '''', ''Python''])" by simp
  from load_cv_text_pdf
         [of ?fs ?p "''%PDF-1.4''" "Some ?r" ?r "[''Jude '', '''', ''Python'']", OF 1 2 refl 3]
  show ?thesis by simp
qed

subsection \<open>Termination of the tokenizer\<close>

text \<open>
  Every token takes at least one character: what a scanner leaves is shorter than what
  it was given. So \<open>tokenize\<close> is total, and with it \<open>json_loads\<close>.
\<close>

lemma prepend_Some: "prepend x r = Some (s, rest) \<Longrightarrow> \<exists>s'. r = Some (s', rest)"
  by (cases r) (auto simp: prepend_def)

lemma scanstring_step:
  assumes "scanstring (c # cs) = Some (s, rest)"
  shows "rest = cs \<or> (\<exists>n s'. scanstring (drop n cs) = Some (s', rest))"
proof (cases "c = CHR 0x22")
  case True
  with assms show ?thesis by simp
next
  case notquote: False
  show ?thesis
  proof (cases "c = CHR 0x5C")
    case False
    with notquote assms obtain s' where "scanstring (drop 0 cs) = Some (s', rest)"
      by (auto split: if_splits dest!: prepend_Some)
    then show ?thesis by blast
  next
    case True
    with notquote assms obtain esc r where cs: "cs = esc # r"
      by (cases cs) auto
    show ?thesis
    proof (cases "esc = CHR ''u''")
      case False
      with True notquote assms cs obtain s' where "scanstring (drop 1 cs) = Some (s', rest)"
        by (auto split: option.splits dest!: prepend_Some)
      then show ?thesis by blast
    next
      case u: True
      with True notquote assms cs
      have "(\<exists>x. prepend x (scanstring (drop 10 r)) = Some (s, rest))
            \<or> (\<exists>x. prepend x (scanstring (drop 4 r)) = Some (s, rest))"
        by (simp split: option.splits if_splits) blast+
      then have "(\<exists>s'. scanstring (drop 11 cs) = Some (s', rest))
                 \<or> (\<exists>s'. scanstring (drop 5 cs) = Some (s', rest))"
        using cs by (auto dest!: prepend_Some)
      then show ?thesis by blast
    qed
  qed
qed

lemma scanstring_shorter: "scanstring cs = Some (s, rest) \<Longrightarrow> length rest < length cs"
proof (induction cs arbitrary: s rule: length_induct)
  case (1 cs)
  show ?case
  proof (cases cs)
    case Nil
    with "1.prems" show ?thesis by simp
  next
    case (Cons c cs')
    with "1.prems" scanstring_step [of c cs' s rest]
    consider "rest = cs'" | n s' where "scanstring (drop n cs') = Some (s', rest)"
      by blast
    then show ?thesis
    proof cases
      case 1
      with Cons show ?thesis by simp
    next
      case 2
      have "length (drop n cs') < length cs" using Cons by simp
      with "1.IH" 2 have "length rest < length (drop n cs')" by blast
      with Cons show ?thesis by simp
    qed
  qed
qed

lemma match_number_shorter:
  assumes "match_number s = Some (v, rest)"
  shows "length rest < length s"
proof -
  from assms have nonempty: "integer_part s \<noteq> []"
    by (auto simp: match_number_def Let_def split: if_splits)
  then have "s \<noteq> []" by (auto simp: integer_part_def)
  moreover from assms nonempty
  have "rest = drop (length (integer_part s) + length (frac_part (drop (length (integer_part s)) s))
              + length (exp_part (drop (length (integer_part s)
                  + length (frac_part (drop (length (integer_part s)) s))) s))) s"
    by (simp add: match_number_def Let_def)
  ultimately show ?thesis using nonempty by (cases "integer_part s") auto
qed

lemma scan_scalar_shorter:
  assumes "scan_scalar (c # cs) = Some (v, rest)"
  shows "length rest < Suc (length cs)"
proof (cases "match_number (c # cs)")
  case (Some r)
  with assms match_number_shorter [of "c # cs" v rest] show ?thesis
    by (auto simp: scan_scalar_def split: if_splits)
next
  case None
  with assms show ?thesis
    by (auto simp: scan_scalar_def split: if_splits)
qed

termination tokenize
  by (relation "measure length") (auto dest: scanstring_shorter scan_scalar_shorter)

subsection \<open>The decoder on deeply nested text\<close>

text \<open>
  A run of opening brackets is a run of tokens; reading them opens one array each, until
  \<open>max_depth\<close> of them are open. So a text of opening brackets alone is refused with
  \<open>JSONDecodeError\<close> when the interpreter has room for all of them, and raises
  \<open>RecursionError\<close> when it has not.
\<close>

lemma tokenize_brackets:
  "tokenize (replicate n (CHR ''['') @ s) = replicate n LBracket @ tokenize s"
  by (induction n) (simp_all add: whitespace_def)

lemma run_open_arrays:
  assumes "length stack \<le> max_depth py"
  shows "run py (FirstValue stack) (replicate n LBracket @ ts) =
           (if length stack + n \<le> max_depth py
            then run py (FirstValue (replicate n (InArray []) @ stack)) ts
            else Inl RecursionError)"
  using assms
proof (induction n arbitrary: stack)
  case 0
  then show ?case by simp
next
  case (Suc n)
  show ?case
  proof (cases "length stack < max_depth py")
    case True
    then have "run py (FirstValue stack) (replicate (Suc n) LBracket @ ts) =
                 run py (FirstValue (InArray [] # stack)) (replicate n LBracket @ ts)"
      by simp
    also have "\<dots> = (if length (InArray [] # stack) + n \<le> max_depth py
                      then run py (FirstValue (replicate n (InArray []) @ InArray [] # stack)) ts
                      else Inl RecursionError)"
      using True by (intro Suc.IH) simp
    finally show ?thesis by (simp add: replicate_app_Cons_same)
  next
    case False
    then show ?thesis by simp
  qed
qed

lemma json_loads_brackets:
  "json_loads py (replicate (Suc n) (CHR ''['')) =
     (if Suc n \<le> max_depth py then Inl JSONDecodeError else Inl RecursionError)"
proof -
  have tokens: "tokenize (replicate (Suc n) (CHR ''['')) = LBracket # replicate n LBracket @ []"
    using tokenize_brackets [of "Suc n" "[]"] by simp
  show ?thesis
  proof (cases "0 < max_depth py")
    case True
    then have "run py (Value []) (LBracket # replicate n LBracket @ []) =
                 run py (FirstValue [InArray []]) (replicate n LBracket @ [])"
      by simp
    also have "\<dots> = (if length [InArray []] + n \<le> max_depth py
                      then run py (FirstValue (replicate n (InArray []) @ [InArray []])) []
                      else Inl RecursionError)"
      using True by (intro run_open_arrays) simp
    finally show ?thesis
      unfolding json_loads_def tokens by simp
  next
    case False
    then show ?thesis
      unfolding json_loads_def tokens by simp
  qed
qed

subsection \<open>Skill extractor\<close>

lemmas json_eval =
  json_loads_def whitespace_def prepend_def dict_def scan_scalar_def
  match_number_def integer_part_def integer_digits_def is_digit_def in_range_def

lemma extract_cv_with_llm_text:
  assumes "Anthropic api_key (create_request prompt cv_text) = Inr message"
    and "first_text message = Inr s"
  shows "extract_cv_with_llm py Anthropic cv_text api_key prompt =
           (case json_loads py s of
              Inr parsed \<Rightarrow> Inr parsed
            | Inl e \<Rightarrow>
                if e = JSONDecodeError then Inr (PyDict [(''raw_response'', PyStr s)])
                else Inl e)"
  using assms by (simp add: extract_cv_with_llm_def)

lemma mocked_client_text:
  "mocked_client s api_key request = Inr \<lparr>content = [TextBlock s]\<rparr>"
  "first_text \<lparr>content = [TextBlock s]\<rparr> = Inr s"
  by (simp_all add: mocked_client_def first_text_def)

lemma extract_skills_mocked:
  "extract_skills py (mocked_client s) cv_text api_key =
     (case json_loads py s of
        Inr parsed \<Rightarrow> Inr parsed
      | Inl e \<Rightarrow>
          if e = JSONDecodeError then Inr (PyDict [(''raw_response'', PyStr s)])
          else Inl e)"
  unfolding extract_skills_def
  by (rule extract_cv_with_llm_text) (rule mocked_client_text)+

text \<open>
  C1, at a response that is a JSON array. The model answers with the text
  \<^verbatim>\<open>["Python", "Go"]\<close>; whenever the interpreter has room to open one array,
  \<open>extract_skills\<close> returns the list of the two strings, which is not a mapping.
\<close>

theorem extract_skills_array_response:
  assumes "0 < max_depth py"
  shows \<open>extract_skills py (mocked_client ''["Python", "Go"]'') cv_text api_key =
           Inr (PyList [PyStr ''Python'', PyStr ''Go''])
         \<and> \<not> is_mapping (PyList [PyStr ''Python'', PyStr ''Go''])\<close>
  using assms by (simp add: extract_skills_mocked json_eval)

theorem extract_skills_array_response_witness:
  \<open>0 < max_depth cpython_defaults
   \<and> extract_skills cpython_defaults (mocked_client ''["Python", "Go"]'') ''cv'' ''key'' =
       Inr (PyList [PyStr ''Python'', PyStr ''Go''])\<close>
proof -
  have room: "0 < max_depth cpython_defaults" by (simp add: cpython_defaults_def)
  from extract_skills_array_response [OF room, of "''cv''" "''key''"] room
  show ?thesis by simp
qed

text \<open>
  C3. Whenever the first block of the model's message is a text for which \<open>json_loads\<close>
  returns a value, \<open>extract_skills\<close> returns that value itself. No key is looked for: the
  response \<^verbatim>\<open>{}\<close> gives the empty mapping. The response of the spec's test gives the
  mapping with the three keys in the order of the text. (The two responses open one and
  two containers, for which the interpreter must have room.)
\<close>

theorem extract_skills_passthrough:
  \<open>(Anthropic api_key (create_request skills_prompt cv_text) = Inr message
      \<and> first_text message = Inr s \<and> json_loads py s = Inr parsed
      \<longrightarrow> extract_skills py Anthropic cv_text api_key = Inr parsed)
   \<and> (0 < max_depth py
      \<longrightarrow> extract_skills py (mocked_client ''{}'') cv_text api_key = Inr (PyDict []))
   \<and> (1 < max_depth py
      \<longrightarrow> extract_skills py
            (mocked_client
               ''{"technical_skills": ["Python"], "professional_skills": [], "domain_skills": []}'')
            cv_text api_key =
          Inr (PyDict [(''technical_skills'', PyList [PyStr ''Python'']),
                       (''professional_skills'', PyList []),
                       (''domain_skills'', PyList [])]))\<close>
proof (intro conjI impI)
  assume "Anthropic api_key (create_request skills_prompt cv_text) = Inr message
          \<and> first_text message = Inr s \<and> json_loads py s = Inr parsed"
  then show "extract_skills py Anthropic cv_text api_key = Inr parsed"
    by (simp add: extract_skills_def extract_cv_with_llm_text)
next
  assume "0 < max_depth py"
  then show "extract_skills py (mocked_client ''{}'') cv_text api_key = Inr (PyDict [])"
    by (simp add: extract_skills_mocked json_eval)
next
  assume "1 < max_depth py"
  then have room: "0 < max_depth py" "Suc 0 < max_depth py" by simp_all
  show \<open>extract_skills py
        (mocked_client
           ''{"technical_skills": ["Python"], "professional_skills": [], "domain_skills": []}'')
        cv_text api_key =
      Inr (PyDict [(''technical_skills'', PyList [PyStr ''Python'']),
                   (''professional_skills'', PyList []),
                   (''domain_skills'', PyList [])])\<close>
    using room by (simp add: extract_skills_mocked json_eval)
qed

theorem extract_skills_passthrough_witness:
  \<open>json_loads cpython_defaults ''{"technical_skills": ["Go", "Rust"], "other": 1}'' =
     Inr (PyDict [(''technical_skills'', PyList [PyStr ''Go'', PyStr ''Rust'']),
                  (''other'', PyInt 1)])
   \<and> extract_skills cpython_defaults
        (mocked_client ''{"technical_skills": ["Go", "Rust"], "other": 1}'') ''cv'' ''key'' =
      Inr (PyDict [(''technical_skills'', PyList [PyStr ''Go'', PyStr ''Rust'']),
                   (''other'', PyInt 1)])
   \<and> extract_skills cpython_defaults (mocked_client ''{}'') ''cv'' ''key'' = Inr (PyDict [])
   \<and> extract_skills cpython_defaults
        (mocked_client
           ''{"technical_skills": ["Python"], "professional_skills": [], "domain_skills": []}'')
        ''cv'' ''key'' =
      Inr (PyDict [(''technical_skills'', PyList [PyStr ''Python'']),
                   (''professional_skills'', PyList []),
                   (''domain_skills'', PyList [])])\<close>
proof -
  let ?s = \<open>''{"technical_skills": ["Go", "Rust"], "other": 1}''\<close>
  let ?v = "PyDict [(''technical_skills'', PyList [PyStr ''Go'', PyStr ''Rust'']),
                    (''other'', PyInt 1)]"
  have 1: "mocked_client ?s ''key'' (create_request skills_prompt ''cv'')
             = Inr \<lparr>content = [TextBlock ?s]\<rparr>"
    by (rule mocked_client_text)
  have 2: "first_text \<lparr>content = [TextBlock ?s]\<rparr> = Inr ?s"
    by (rule mocked_client_text)
  have 3: "json_loads cpython_defaults ?s = Inr ?v"
    by (simp add: json_eval cpython_defaults_def decimal_def python_int_def frac_part_def
        exp_part_def)
  have room: "0 < max_depth cpython_defaults" "1 < max_depth cpython_defaults"
    by (simp_all add: cpython_defaults_def)
  from extract_skills_passthrough
         [of "mocked_client ?s" "''key''" "''cv''" "\<lparr>content = [TextBlock ?s]\<rparr>" ?s
             cpython_defaults ?v]
       1 2 3 room
  show ?thesis by blast
qed

text \<open>
  C4, as the code has it. Whenever the first block of the model's message is a text for
  which \<open>json_loads\<close> raises \<open>JSONDecodeError\<close>, \<open>extract_skills\<close> raises nothing: it returns
  the mapping with the one key \<^verbatim>\<open>raw_response\<close> and the text as its value. The response
  \<^verbatim>\<open>Not JSON at all\<close> is such a text, for every interpreter. Any other exception of
  \<open>json_loads\<close> leaves \<open>extract_skills\<close> as it is.
\<close>

theorem extract_skills_fallback:
  "(Anthropic api_key (create_request skills_prompt cv_text) = Inr message
      \<and> first_text message = Inr s \<and> json_loads py s = Inl JSONDecodeError
      \<longrightarrow> extract_skills py Anthropic cv_text api_key
            = Inr (PyDict [(''raw_response'', PyStr s)]))
   \<and> extract_skills py (mocked_client ''Not JSON at all'') cv_text api_key =
      Inr (PyDict [(''raw_response'', PyStr ''Not JSON at all'')])
   \<and> (Anthropic api_key (create_request skills_prompt cv_text) = Inr message
      \<and> first_text message = Inr s \<and> json_loads py s = Inl e \<and> e \<noteq> JSONDecodeError
      \<longrightarrow> extract_skills py Anthropic cv_text api_key = Inl e)"
proof (intro conjI impI)
  assume "Anthropic api_key (create_request skills_prompt cv_text) = Inr message
          \<and> first_text message = Inr s \<and> json_loads py s = Inl JSONDecodeError"
  then show "extract_skills py Anthropic cv_text api_key
               = Inr (PyDict [(''raw_response'', PyStr s)])"
    by (simp add: extract_skills_def extract_cv_with_llm_text)
next
  show "extract_skills py (mocked_client ''Not JSON at all'') cv_text api_key =
          Inr (PyDict [(''raw_response'', PyStr ''Not JSON at all'')])"
    by (simp add: extract_skills_mocked json_eval)
next
  assume "Anthropic api_key (create_request skills_prompt cv_text) = Inr message
          \<and> first_text message = Inr s \<and> json_loads py s = Inl e \<and> e \<noteq> JSONDecodeError"
  then show "extract_skills py Anthropic cv_text api_key = Inl e"
    by (simp add: extract_skills_def extract_cv_with_llm_text)
qed

theorem extract_skills_fallback_witness:
  \<open>json_loads cpython_defaults ''{"technical_skills": ["Python",]}'' = Inl JSONDecodeError
   \<and> extract_skills cpython_defaults (mocked_client ''{"technical_skills": ["Python",]}'')
        ''cv'' ''key'' =
      Inr (PyDict [(''raw_response'', PyStr ''{"technical_skills": ["Python",]}'')])
   \<and> json_loads \<lparr>max_depth = 1, int_max_str_digits = 4300\<rparr> ''[[1]]'' = Inl RecursionError
   \<and> extract_skills \<lparr>max_depth = 1, int_max_str_digits = 4300\<rparr> (mocked_client ''[[1]]'')
        ''cv'' ''key'' = Inl RecursionError\<close>
proof -
  let ?s = \<open>''{"technical_skills": ["Python",]}''\<close>
  let ?t = "''[[1]]''"
  let ?small = "\<lparr>max_depth = 1, int_max_str_digits = 4300\<rparr>"
  have 1: "mocked_client ?s ''key'' (create_request skills_prompt ''cv'')
             = Inr \<lparr>content = [TextBlock ?s]\<rparr>"
    "mocked_client ?t ''key'' (create_request skills_prompt ''cv'')
             = Inr \<lparr>content = [TextBlock ?t]\<rparr>"
    by (rule mocked_client_text)+
  have 2: "first_text \<lparr>content = [TextBlock ?s]\<rparr> = Inr ?s"
    "first_text \<lparr>content = [TextBlock ?t]\<rparr> = Inr ?t"
    by (rule mocked_client_text)+
  have 3: "json_loads cpython_defaults ?s = Inl JSONDecodeError"
    by (simp add: json_eval cpython_defaults_def)
  have 4: "json_loads ?small ?t = Inl RecursionError"
    by (simp add: json_eval)
  from extract_skills_fallback
         [of "mocked_client ?s" "''key''" "''cv''" "\<lparr>content = [TextBlock ?s]\<rparr>" ?s
             cpython_defaults]
       extract_skills_fallback
         [of "mocked_client ?t" "''key''" "''cv''" "\<lparr>content = [TextBlock ?t]\<rparr>" ?t
             ?small RecursionError]
       1 2 3 4
  show ?thesis by simp
qed

text \<open>
  C4, as the spec has it, fails at a response of one thousand opening brackets. The text
  is not JSON: a decoder with room for a thousand arrays refuses it with
  \<open>JSONDecodeError\<close>. With the defaults of CPython the decoder raises \<open>RecursionError\<close>
  before it reaches the end of the text, the \<^verbatim>\<open>except\<close> clause does not catch it, and
  \<open>extract_skills\<close> raises it.
\<close>

theorem extract_skills_deep_nesting:
  "json_loads \<lparr>max_depth = 1000, int_max_str_digits = 4300\<rparr> (replicate 1000 (CHR ''[''))
     = Inl JSONDecodeError
   \<and> json_loads cpython_defaults (replicate 1000 (CHR ''['')) = Inl RecursionError
   \<and> extract_skills cpython_defaults (mocked_client (replicate 1000 (CHR ''[''))) ''cv'' ''key''
     = Inl RecursionError"
proof -
  have "json_loads \<lparr>max_depth = 1000, int_max_str_digits = 4300\<rparr> (replicate (Suc 999) (CHR ''[''))
          = Inl JSONDecodeError"
    by (simp only: json_loads_brackets) simp
  moreover have "json_loads cpython_defaults (replicate (Suc 999) (CHR ''['')) = Inl RecursionError"
    by (simp only: json_loads_brackets) (simp add: cpython_defaults_def)
  ultimately show ?thesis
    by (simp add: extract_skills_mocked)
qed

text \<open>
  C9. When the API answers with a message whose content is the empty list,
  \<open>extract_cv_with_llm\<close> raises \<open>IndexError\<close>: the result is neither a value (so not the
  \<^verbatim>\<open>raw_response\<close> mapping) nor a \<open>CVExtractorError\<close>.
\<close>

theorem extract_cv_with_llm_empty_content:
  assumes "Anthropic api_key (create_request prompt cv_text) = Inr message"
    and "content message = []"
  shows "extract_cv_with_llm py Anthropic cv_text api_key prompt = Inl IndexError
         \<and> (\<forall>v. extract_cv_with_llm py Anthropic cv_text api_key prompt \<noteq> Inr v)
         \<and> (\<forall>m. extract_cv_with_llm py Anthropic cv_text api_key prompt \<noteq> Inl (CVExtractorError m))"
  using assms by (simp add: extract_cv_with_llm_def first_text_def)

theorem extract_cv_with_llm_empty_content_witness:
  "extract_cv_with_llm cpython_defaults (\<lambda>api_key request. Inr \<lparr>content = []\<rparr>)
     ''cv'' ''key'' skills_prompt
     = Inl IndexError"
proof -
  have 1: "(\<lambda>api_key request. Inr \<lparr>content = []\<rparr> :: pyerror + message) ''key''
             (create_request skills_prompt ''cv'') = Inr \<lparr>content = []\<rparr>"
    by simp
  have 2: "content \<lparr>content = []\<rparr> = []" by simp
  from extract_cv_with_llm_empty_content
         [of "\<lambda>api_key request. Inr \<lparr>content = []\<rparr>" "''key''" skills_prompt "''cv''"
             "\<lparr>content = []\<rparr>" cpython_defaults, OF 1 2]
  show ?thesis by simp
qed

end
